theory Spec2Isabelle
  imports
    Main
    "HOL-Library.AList"
    "HOL-Library.Monad_Syntax"
    "HOL-Library.Option_ord"
    "HOL-Library.Product_Lexorder"
    "HOL-Library.List_Lexorder"
    "HOL-Library.Char_ord"
begin

section \<open>Values, documents and exceptions\<close>

text \<open>
  A \<open>datetime\<close> is a point on the time line, an identifier of the store is written as
  the string that \<open>str\<close> prints for it. The values a post's fields hold are \<open>None\<close>,
  booleans, strings, lists of strings and datetimes.
\<close>

type_synonym time = int
type_synonym oid = string

datatype bson = VNull | VBool bool | VStr string | VStrs "string list" | VTime time

text \<open>
  A Python dict (and a stored document's body) is an association list with unique keys.
  A stored document is its \<open>_id\<close> with the other fields.
\<close>

type_synonym dict = "(string \<times> bson) list"
type_synonym doc = "oid \<times> dict"

definition contains :: "dict \<Rightarrow> string \<Rightarrow> bool" where
  \<comment> \<open>\<open>k in d\<close>\<close>
  "contains d k = (map_of d k \<noteq> None)"

definition dict_get :: "dict \<Rightarrow> string \<Rightarrow> bson" where
  \<comment> \<open>\<open>d.get(k)\<close>: \<open>None\<close> for a missing key\<close>
  "dict_get d k = (case map_of d k of None \<Rightarrow> VNull | Some v \<Rightarrow> v)"

definition dict_get_default :: "dict \<Rightarrow> string \<Rightarrow> bson \<Rightarrow> bson" where
  \<comment> \<open>\<open>d.get(k, default)\<close>\<close>
  "dict_get_default d k dflt = (case map_of d k of None \<Rightarrow> dflt | Some v \<Rightarrow> v)"

definition dict_set :: "dict \<Rightarrow> string \<Rightarrow> bson \<Rightarrow> dict" where
  \<comment> \<open>\<open>d[k] = v\<close>\<close>
  "dict_set d k v = AList.update k v d"

definition setdefault :: "dict \<Rightarrow> string \<Rightarrow> bson \<Rightarrow> dict" where
  \<comment> \<open>\<open>d.setdefault(k, v)\<close>: a key that is present keeps its value, also the value \<open>None\<close>\<close>
  "setdefault d k v = (if contains d k then d else dict_set d k v)"

fun truthy :: "bson \<Rightarrow> bool" where
  "truthy VNull = False"
| "truthy (VBool b) = b"
| "truthy (VStr s) = (s \<noteq> [])"
| "truthy (VStrs xs) = (xs \<noteq> [])"
| "truthy (VTime t) = True"

text \<open>
  Exceptions. \<open>HTTPException\<close> carries the status code and the detail; every other
  exception that leaves a handler is answered by the framework with status 500.
\<close>

datatype exn =
    HTTPException nat string
  | ValidationError
  | TypeError
  | AttributeError
  | InvalidId
  | DuplicateKeyError
  | StorageError string

fun status_code :: "exn + 'a \<Rightarrow> nat" where
  "status_code (Inr _) = 200"
| "status_code (Inl (HTTPException c _)) = c"
| "status_code (Inl _) = 500"

section \<open>The document store\<close>

text \<open>
  The database handle \<open>db\<close> is \<open>None\<close> or a handle on a store. The store holds the
  \<open>blogpost\<close> collection in its natural order and the names of its collections. The
  driver's calls go over the network and may raise: \<open>faults\<close> lists what the coming
  calls meet, \<open>Some msg\<close> for a call that raises with that message; each call consumes
  one entry, and a call finding the list empty goes through.
\<close>

record store =
  blogpost :: "doc list"
  coll_names :: "string list"
  db_name :: "string option"
  faults :: "string option list"

type_synonym db = "store option"

definition driver_call :: "store \<Rightarrow> string option \<times> store" where
  "driver_call s = (case faults s of [] \<Rightarrow> (None, s) | f # fs \<Rightarrow> (f, s\<lparr>faults := fs\<rparr>))"

definition find_one :: "store \<Rightarrow> oid \<Rightarrow> (exn + doc option) \<times> store" where
  \<comment> \<open>\<open>find_one({"_id": oid})\<close>\<close>
  "find_one s i =
     (case driver_call s of
        (Some msg, s') \<Rightarrow> (Inl (StorageError msg), s')
      | (None, s') \<Rightarrow> (Inr (List.find (\<lambda>d. fst d = i) (blogpost s')), s'))"

fun set_first :: "oid \<Rightarrow> dict \<Rightarrow> doc list \<Rightarrow> doc list" where
  \<comment> \<open>\<open>$set\<close> on the first document with the identifier: the named fields are written,
      the others stay\<close>
  "set_first i upd [] = []"
| "set_first i upd (d # ds) =
     (if fst d = i then (fst d, AList.merge (snd d) upd) # ds
      else d # set_first i upd ds)"

definition update_one :: "store \<Rightarrow> oid \<Rightarrow> dict \<Rightarrow> (exn + nat) \<times> store" where
  \<comment> \<open>\<open>update_one({"_id": oid}, {"$set": upd})\<close>, returning \<open>matched_count\<close>\<close>
  "update_one s i upd =
     (case driver_call s of
        (Some msg, s') \<Rightarrow> (Inl (StorageError msg), s')
      | (None, s') \<Rightarrow>
          (if \<exists>d \<in> set (blogpost s'). fst d = i
           then (Inr 1, s'\<lparr>blogpost := set_first i upd (blogpost s')\<rparr>)
           else (Inr 0, s')))"

fun remove_first :: "oid \<Rightarrow> doc list \<Rightarrow> doc list" where
  "remove_first i [] = []"
| "remove_first i (d # ds) = (if fst d = i then ds else d # remove_first i ds)"

definition delete_one :: "store \<Rightarrow> oid \<Rightarrow> (exn + nat) \<times> store" where
  \<comment> \<open>\<open>delete_one({"_id": oid})\<close>, returning \<open>deleted_count\<close>\<close>
  "delete_one s i =
     (case driver_call s of
        (Some msg, s') \<Rightarrow> (Inl (StorageError msg), s')
      | (None, s') \<Rightarrow>
          (if \<exists>d \<in> set (blogpost s'). fst d = i
           then (Inr 1, s'\<lparr>blogpost := remove_first i (blogpost s')\<rparr>)
           else (Inr 0, s')))"

definition insert_one :: "store \<Rightarrow> oid \<Rightarrow> dict \<Rightarrow> (exn + oid) \<times> store" where
  \<comment> \<open>\<open>insert_one(data)\<close> with the identifier the driver generated, returning
      \<open>inserted_id\<close>; the store refuses an identifier it already holds\<close>
  "insert_one s new_id data =
     (case driver_call s of
        (Some msg, s') \<Rightarrow> (Inl (StorageError msg), s')
      | (None, s') \<Rightarrow>
          (if \<exists>d \<in> set (blogpost s'). fst d = new_id
           then (Inl DuplicateKeyError, s')
           else (Inr new_id, s'\<lparr>blogpost := blogpost s' @ [(new_id, data)]\<rparr>)))"

definition list_collection_names :: "store \<Rightarrow> (exn + string list) \<times> store" where
  "list_collection_names s =
     (case driver_call s of
        (Some msg, s') \<Rightarrow> (Inl (StorageError msg), s')
      | (None, s') \<Rightarrow> (Inr (coll_names s'), s'))"

section \<open>Serialization\<close>

record BlogPostOut =
  o_id :: string
  o_title :: string
  o_slug :: string
  o_excerpt :: "string option"
  o_content :: string
  o_author :: string
  o_cover_image_url :: "string option"
  o_tags :: "string list"
  o_published :: bool
  o_published_at :: "time option"
  o_created_at :: "time option"
  o_updated_at :: "time option"

text \<open>
  The validation of \<open>BlogPostOut\<close>'s fields by their declared types: \<open>str\<close>,
  \<open>Optional[str]\<close>, \<open>List[str]\<close>, \<open>bool\<close> and \<open>Optional[datetime]\<close>. \<open>None\<close> is
  the result for a value the type refuses.
\<close>

fun v_str :: "bson \<Rightarrow> string option" where
  "v_str (VStr s) = Some s"
| "v_str _ = None"

fun v_opt_str :: "bson \<Rightarrow> string option option" where
  "v_opt_str VNull = Some None"
| "v_opt_str (VStr s) = Some (Some s)"
| "v_opt_str _ = None"

fun v_str_list :: "bson \<Rightarrow> string list option" where
  "v_str_list (VStrs xs) = Some xs"
| "v_str_list _ = None"

fun v_bool :: "bson \<Rightarrow> bool option" where
  "v_bool (VBool b) = Some b"
| "v_bool _ = None"

fun v_opt_time :: "bson \<Rightarrow> time option option" where
  "v_opt_time VNull = Some None"
| "v_opt_time (VTime t) = Some (Some t)"
| "v_opt_time _ = None"

definition build_out :: "doc \<Rightarrow> BlogPostOut option" where
  "build_out d =
     do {
       title \<leftarrow> v_str (dict_get (snd d) ''title'');
       slug \<leftarrow> v_str (dict_get (snd d) ''slug'');
       excerpt \<leftarrow> v_opt_str (dict_get (snd d) ''excerpt'');
       content \<leftarrow> v_str (dict_get (snd d) ''content'');
       author \<leftarrow> v_str (dict_get (snd d) ''author'');
       cover_image_url \<leftarrow> v_opt_str (dict_get (snd d) ''cover_image_url'');
       tags \<leftarrow> v_str_list (dict_get_default (snd d) ''tags'' (VStrs []));
       published \<leftarrow> v_bool (dict_get_default (snd d) ''published'' (VBool False));
       published_at \<leftarrow> v_opt_time (dict_get (snd d) ''published_at'');
       created_at \<leftarrow> v_opt_time (dict_get (snd d) ''created_at'');
       updated_at \<leftarrow> v_opt_time (dict_get (snd d) ''updated_at'');
       Some \<lparr> o_id = fst d, o_title = title, o_slug = slug, o_excerpt = excerpt,
              o_content = content, o_author = author, o_cover_image_url = cover_image_url,
              o_tags = tags, o_published = published, o_published_at = published_at,
              o_created_at = created_at, o_updated_at = updated_at \<rparr>
     }"

definition serialize_post :: "doc \<Rightarrow> exn + BlogPostOut" where
  "serialize_post d = (case build_out d of None \<Rightarrow> Inl ValidationError | Some out \<Rightarrow> Inr out)"

section \<open>Handlers: get and delete\<close>

text \<open>
  \<open>ObjectId\<close>, the driver's parser of identifiers, is a parameter of the handlers:
  \<open>None\<close> where it raises.
\<close>

definition get_post :: "(string \<Rightarrow> oid option) \<Rightarrow> db \<Rightarrow> string \<Rightarrow> (exn + BlogPostOut) \<times> db" where
  "get_post ObjectId db post_id =
     (case db of
        None \<Rightarrow> (Inl (HTTPException 400 ''Invalid post id''), db)
      | Some s \<Rightarrow>
          (case ObjectId post_id of
             None \<Rightarrow> (Inl (HTTPException 400 ''Invalid post id''), db)
           | Some i \<Rightarrow>
               (case find_one s i of
                  (Inl e, s') \<Rightarrow> (Inl (HTTPException 400 ''Invalid post id''), Some s')
                | (Inr None, s') \<Rightarrow> (Inl (HTTPException 404 ''Post not found''), Some s')
                | (Inr (Some d), s') \<Rightarrow> (serialize_post d, Some s'))))"

definition delete_post :: "(string \<Rightarrow> oid option) \<Rightarrow> db \<Rightarrow> string \<Rightarrow> (exn + bool) \<times> db" where
  "delete_post ObjectId db post_id =
     (case ObjectId post_id of
        None \<Rightarrow> (Inl (HTTPException 400 ''Invalid post id''), db)
      | Some i \<Rightarrow>
          (case db of
             None \<Rightarrow> (Inl TypeError, db)
           | Some s \<Rightarrow>
               (case delete_one s i of
                  (Inl e, s') \<Rightarrow> (Inl e, Some s')
                | (Inr n, s') \<Rightarrow>
                    (if n = 0 then (Inl (HTTPException 404 ''Post not found''), Some s')
                     else (Inr True, Some s')))))"

section \<open>Handlers: create and update\<close>

text \<open>
  The create payload, after the framework has validated it: \<open>title\<close> and \<open>slug\<close> have
  at least three characters. \<open>model_dump\<close> gives a dict with every field.
\<close>

record BlogPost =
  title :: string
  slug :: string
  excerpt :: "string option"
  content :: string
  author :: string
  cover_image_url :: "string option"
  tags :: "string list"
  published :: bool
  published_at :: "time option"

definition valid_payload :: "BlogPost \<Rightarrow> bool" where
  "valid_payload p = (3 \<le> length (title p) \<and> 3 \<le> length (slug p))"

definition opt :: "('a \<Rightarrow> bson) \<Rightarrow> 'a option \<Rightarrow> bson" where
  "opt f x = (case x of None \<Rightarrow> VNull | Some v \<Rightarrow> f v)"

definition model_dump :: "BlogPost \<Rightarrow> dict" where
  "model_dump p =
     [(''title'', VStr (title p)),
      (''slug'', VStr (slug p)),
      (''excerpt'', opt VStr (excerpt p)),
      (''content'', VStr (content p)),
      (''author'', VStr (author p)),
      (''cover_image_url'', opt VStr (cover_image_url p)),
      (''tags'', VStrs (tags p)),
      (''published'', VBool (published p)),
      (''published_at'', opt VTime (published_at p))]"

text \<open>
  Modelled from the spec: \<open>create_document\<close> of the storage accessor (\<open>database.py\<close>),
  which is not among the sources. The spec gives it as insert-one, returning the
  generated identifier, with no stamping of \<open>created_at\<close>. The identifier the driver
  generates is the argument \<open>new_id\<close>.
\<close>

definition create_document :: "db \<Rightarrow> oid \<Rightarrow> dict \<Rightarrow> (exn + string) \<times> db" where
  "create_document db new_id data =
     (case db of
        None \<Rightarrow> (Inl TypeError, db)
      | Some s \<Rightarrow>
          (case insert_one s new_id data of
             (Inl e, s') \<Rightarrow> (Inl e, Some s')
           | (Inr i, s') \<Rightarrow> (Inr i, Some s')))"

definition create_data :: "BlogPost \<Rightarrow> time \<Rightarrow> dict" where
  \<comment> \<open>the dict \<open>create_post\<close> hands to \<open>create_document\<close>\<close>
  "create_data payload now =
     (let data = model_dump payload in
      if truthy (dict_get data ''published'') \<and> \<not> truthy (dict_get data ''published_at'')
      then dict_set data ''published_at'' (VTime now)
      else data)"

definition create_post ::
  "(string \<Rightarrow> oid option) \<Rightarrow> db \<Rightarrow> oid \<Rightarrow> time \<Rightarrow> BlogPost \<Rightarrow> (exn + BlogPostOut) \<times> db" where
  "create_post ObjectId db new_id now payload =
     (case create_document db new_id (create_data payload now) of
        (Inl e, db') \<Rightarrow> (Inl e, db')
      | (Inr inserted_id, db') \<Rightarrow>
          (case db' of
             None \<Rightarrow> (Inl TypeError, db')
           | Some s \<Rightarrow>
               (case ObjectId inserted_id of
                  None \<Rightarrow> (Inl InvalidId, db')
                | Some i \<Rightarrow>
                    (case find_one s i of
                       (Inl e, s') \<Rightarrow> (Inl e, Some s')
                     | (Inr None, s') \<Rightarrow> (Inl AttributeError, Some s')
                     | (Inr (Some d), s') \<Rightarrow> (serialize_post d, Some s')))))"

text \<open>
  The update payload: every field is unset (\<open>None\<close>), set to \<open>null\<close> (\<open>Some None\<close>) or
  set to a value. \<open>model_dump(exclude_unset=True)\<close> keeps the fields that are set.
\<close>

record BlogPostUpdate =
  u_title :: "string option option"
  u_slug :: "string option option"
  u_excerpt :: "string option option"
  u_content :: "string option option"
  u_author :: "string option option"
  u_cover_image_url :: "string option option"
  u_tags :: "string list option option"
  u_published :: "bool option option"
  u_published_at :: "time option option"

definition dump_set :: "string \<Rightarrow> ('a \<Rightarrow> bson) \<Rightarrow> 'a option option \<Rightarrow> dict" where
  "dump_set k f x = (case x of None \<Rightarrow> [] | Some v \<Rightarrow> [(k, opt f v)])"

definition model_dump_exclude_unset :: "BlogPostUpdate \<Rightarrow> dict" where
  "model_dump_exclude_unset p =
     dump_set ''title'' VStr (u_title p) @
     dump_set ''slug'' VStr (u_slug p) @
     dump_set ''excerpt'' VStr (u_excerpt p) @
     dump_set ''content'' VStr (u_content p) @
     dump_set ''author'' VStr (u_author p) @
     dump_set ''cover_image_url'' VStr (u_cover_image_url p) @
     dump_set ''tags'' VStrs (u_tags p) @
     dump_set ''published'' VBool (u_published p) @
     dump_set ''published_at'' VTime (u_published_at p)"

definition stamp_update :: "dict \<Rightarrow> time \<Rightarrow> time \<Rightarrow> dict" where
  \<comment> \<open>the publish-state lines of \<open>update_post\<close> and the stamp of \<open>updated_at\<close>;
      \<open>t_pub\<close> and \<open>t_upd\<close> are the two readings of the clock\<close>
  "stamp_update update_data t_pub t_upd =
     (let d1 = (if contains update_data ''published'' \<and> truthy (dict_get update_data ''published'')
                then setdefault update_data ''published_at'' (VTime t_pub)
                else update_data);
          d2 = (if contains d1 ''published'' \<and> dict_get d1 ''published'' = VBool False
                then setdefault d1 ''published_at'' VNull
                else d1)
      in dict_set d2 ''updated_at'' (VTime t_upd))"

definition update_post ::
  "(string \<Rightarrow> oid option) \<Rightarrow> db \<Rightarrow> time \<Rightarrow> time \<Rightarrow> string \<Rightarrow> BlogPostUpdate
     \<Rightarrow> (exn + BlogPostOut) \<times> db" where
  "update_post ObjectId db t_pub t_upd post_id payload =
     (case ObjectId post_id of
        None \<Rightarrow> (Inl (HTTPException 400 ''Invalid post id''), db)
      | Some i \<Rightarrow>
          (let update_data = model_dump_exclude_unset payload in
           if update_data = [] then (Inl (HTTPException 400 ''No data to update''), db)
           else
             (case db of
                None \<Rightarrow> (Inl TypeError, db)
              | Some s \<Rightarrow>
                  (case update_one s i (stamp_update update_data t_pub t_upd) of
                     (Inl e, s') \<Rightarrow> (Inl e, Some s')
                   | (Inr matched_count, s') \<Rightarrow>
                       (if matched_count = 0
                        then (Inl (HTTPException 404 ''Post not found''), Some s')
                        else
                          (case find_one s' i of
                             (Inl e, s'') \<Rightarrow> (Inl e, Some s'')
                           | (Inr None, s'') \<Rightarrow> (Inl AttributeError, Some s'')
                           | (Inr (Some d), s'') \<Rightarrow> (serialize_post d, Some s'')))))))"

section \<open>Handlers: list\<close>

text \<open>
  The filter of \<open>list_posts\<close> is a list of conditions: \<open>{"published": b}\<close> holds of a
  document whose field is that boolean, \<open>{"tags": {"$in": ts}}\<close> of one whose field is
  one of \<open>ts\<close> or a list with an element among \<open>ts\<close>.
\<close>

datatype cond = PublishedIs bool | TagsIn "string list"

fun matches_cond :: "dict \<Rightarrow> cond \<Rightarrow> bool" where
  "matches_cond body (PublishedIs b) = (map_of body ''published'' = Some (VBool b))"
| "matches_cond body (TagsIn ts) =
     (case map_of body ''tags'' of
        Some (VStr s) \<Rightarrow> s \<in> set ts
      | Some (VStrs xs) \<Rightarrow> (\<exists>t \<in> set ts. t \<in> set xs)
      | _ \<Rightarrow> False)"

definition matches :: "cond list \<Rightarrow> doc \<Rightarrow> bool" where
  "matches filter_query d = list_all (matches_cond (snd d)) filter_query"

text \<open>
  The store's order of values for a descending sort: a missing field counts as null, an
  empty list comes below null, a list stands for its greatest element, and the kinds of
  value come in the order null, string, boolean, date.
\<close>

fun desc_key :: "bson \<Rightarrow> nat \<times> int \<times> string" where
  "desc_key (VStrs []) = (0, 0, [])"
| "desc_key VNull = (1, 0, [])"
| "desc_key (VStr s) = (2, 0, s)"
| "desc_key (VStrs (x # xs)) = (2, 0, fold max xs x)"
| "desc_key (VBool b) = (3, (if b then 1 else 0), [])"
| "desc_key (VTime t) = (4, t, [])"

definition sort_desc :: "string \<Rightarrow> doc list \<Rightarrow> doc list" where
  \<comment> \<open>\<open>.sort(field, -1)\<close>\<close>
  "sort_desc field ds = rev (sort_key (\<lambda>d. desc_key (dict_get (snd d) field)) ds)"

definition cursor_limit :: "int \<Rightarrow> 'a list \<Rightarrow> 'a list" where
  \<comment> \<open>\<open>.limit(n)\<close>: 0 is no limit, a negative limit caps at its absolute value\<close>
  "cursor_limit n xs = (if n = 0 then xs else take (nat \<bar>n\<bar>) xs)"

definition find_sort_limit :: "store \<Rightarrow> cond list \<Rightarrow> string \<Rightarrow> int \<Rightarrow> (exn + doc list) \<times> store" where
  \<comment> \<open>iterating \<open>find(filter_query).sort(field, -1).limit(n)\<close>\<close>
  "find_sort_limit s filter_query field n =
     (case driver_call s of
        (Some msg, s') \<Rightarrow> (Inl (StorageError msg), s')
      | (None, s') \<Rightarrow>
          (Inr (cursor_limit n (sort_desc field (filter (matches filter_query) (blogpost s')))), s'))"

fun serialize_all :: "doc list \<Rightarrow> exn + BlogPostOut list" where
  \<comment> \<open>\<open>[serialize_post(d) for d in docs]\<close>\<close>
  "serialize_all [] = Inr []"
| "serialize_all (d # ds) =
     (case serialize_post d of
        Inl e \<Rightarrow> Inl e
      | Inr out \<Rightarrow> (case serialize_all ds of Inl e \<Rightarrow> Inl e | Inr outs \<Rightarrow> Inr (out # outs)))"

definition list_posts :: "db \<Rightarrow> bool option \<Rightarrow> string option \<Rightarrow> int \<Rightarrow> (exn + BlogPostOut list) \<times> db" where
  "list_posts db published_p tag limit =
     (let q1 = (case published_p of None \<Rightarrow> [] | Some b \<Rightarrow> [PublishedIs b]);
          filter_query = q1 @ (case tag of None \<Rightarrow> [] | Some t \<Rightarrow> if t \<noteq> [] then [TagsIn [t]] else [])
      in case db of
           None \<Rightarrow> (Inl TypeError, db)
         | Some s \<Rightarrow>
             (case find_sort_limit s filter_query ''created_at'' limit of
                (Inl e, s') \<Rightarrow> (Inl e, Some s')
              | (Inr docs, s') \<Rightarrow> (serialize_all docs, Some s')))"

section \<open>The diagnostics endpoint\<close>

text \<open>
  A status text is an optional leading sign (check mark, cross mark, warning sign) and
  the characters after it.
\<close>

datatype sign = CheckMark | CrossMark | WarningSign

type_synonym status = "sign option \<times> string"

record diagnostics =
  backend :: status
  database :: status
  database_url :: "status option"
  database_name :: "status option"
  connection_status :: string
  collections :: "string list"

fun str_exn :: "exn \<Rightarrow> string" where
  "str_exn (StorageError msg) = msg"
| "str_exn (HTTPException c detail) = detail"
| "str_exn _ = []"

definition test_database_body :: "string option \<Rightarrow> db \<Rightarrow> diagnostics \<Rightarrow> (exn + diagnostics) \<times> db" where
  \<comment> \<open>the body of the outer \<open>try\<close>; \<open>getenv\<close> is the value of \<open>DATABASE_URL\<close>\<close>
  "test_database_body getenv db response =
     (case db of
        Some s \<Rightarrow>
          (let r = response\<lparr>
                 database := (Some CheckMark, '' Available''),
                 database_url :=
                   Some (if getenv \<noteq> None \<and> getenv \<noteq> Some []
                         then (Some CheckMark, '' Set'') else (Some CrossMark, '' Not Set'')),
                 database_name :=
                   Some (case db_name s of Some n \<Rightarrow> (None, n) | None \<Rightarrow> (Some CheckMark, '' Connected'')),
                 connection_status := ''Connected''\<rparr>
           in case list_collection_names s of
                (Inr cs, s') \<Rightarrow>
                  (Inr (r\<lparr>collections := take 10 cs,
                           database := (Some CheckMark, '' Connected & Working'')\<rparr>), Some s')
              | (Inl e, s') \<Rightarrow>
                  (Inr (r\<lparr>database :=
                            (Some WarningSign, '' Connected but Error: '' @ take 80 (str_exn e))\<rparr>),
                   Some s'))
      | None \<Rightarrow>
          (Inr (response\<lparr>database := (Some WarningSign, '' Available but not initialized'')\<rparr>), db))"

definition test_database :: "string option \<Rightarrow> db \<Rightarrow> (exn + diagnostics) \<times> db" where
  "test_database getenv db =
     (let response = \<lparr>
            backend = (Some CheckMark, '' Running''),
            database = (Some CrossMark, '' Not Available''),
            database_url = None,
            database_name = None,
            connection_status = ''Not Connected'',
            collections = []\<rparr>
      in case test_database_body getenv db response of
           (Inl e, db') \<Rightarrow>
             (Inr (response\<lparr>database := (Some CrossMark, '' Error: '' @ take 80 (str_exn e))\<rparr>), db')
         | (Inr r, db') \<Rightarrow> (Inr r, db'))"

section \<open>Sample data\<close>

text \<open>
  A parser of identifiers for the examples: the strings of 24 lower-case hexadecimal
  digits, each standing for itself. Two stored posts, the first as the create operation
  stores the payload \<open>{title: "Hi There", slug: "hi-there", content: "body", author: "Jo"}\<close>.
\<close>

definition ObjectId_hex :: "string \<Rightarrow> oid option" where
  "ObjectId_hex s =
     (if length s = 24 \<and> list_all (\<lambda>c. c \<in> set ''0123456789abcdef'') s then Some s else None)"

definition id_a :: oid where
  "id_a = ''64b7f0c2a1d3e4f5a6b7c8d9''"

definition id_b :: oid where
  "id_b = ''64b7f0c2a1d3e4f5a6b7c8da''"

definition id_c :: oid where
  "id_c = ''64b7f0c2a1d3e4f5a6b7c8db''"

definition payload_hi :: BlogPost where
  "payload_hi = \<lparr> title = ''Hi There'', slug = ''hi-there'', excerpt = None, content = ''body'',
                   author = ''Jo'', cover_image_url = None, tags = [], published = False,
                   published_at = None \<rparr>"

definition post_a :: doc where
  "post_a = (id_a, model_dump payload_hi)"

definition post_b :: doc where
  "post_b =
     (id_b,
      [(''title'', VStr ''Second''), (''slug'', VStr ''second''), (''excerpt'', VNull),
       (''content'', VStr ''text''), (''author'', VStr ''Jo''), (''cover_image_url'', VNull),
       (''tags'', VStrs [''foo'']), (''published'', VBool True), (''published_at'', VTime 100),
       (''created_at'', VTime 90)])"

definition sample_store :: store where
  "sample_store = \<lparr> blogpost = [post_a, post_b], coll_names = [''blogpost''],
                     db_name = Some ''blog'', faults = [] \<rparr>"

definition no_fields :: BlogPostUpdate where
  "no_fields = \<lparr> u_title = None, u_slug = None, u_excerpt = None, u_content = None,
                  u_author = None, u_cover_image_url = None, u_tags = None, u_published = None,
                  u_published_at = None \<rparr>"

definition stored :: "db \<Rightarrow> oid \<Rightarrow> dict option" where
  \<comment> \<open>the body of the stored document with the identifier, if there is one\<close>
  "stored db i = (case db of None \<Rightarrow> None | Some s \<Rightarrow> map_of (blogpost s) i)"

definition next_calls_ok :: "nat \<Rightarrow> store \<Rightarrow> bool" where
  \<comment> \<open>none of the coming \<open>n\<close> calls of the driver raises\<close>
  "next_calls_ok n s = list_all (\<lambda>f. f = None) (take n (faults s))"

definition out_a :: BlogPostOut where
  \<comment> \<open>\<open>post_a\<close> serialized\<close>
  "out_a = \<lparr> o_id = id_a, o_title = ''Hi There'', o_slug = ''hi-there'', o_excerpt = None,
              o_content = ''body'', o_author = ''Jo'', o_cover_image_url = None, o_tags = [],
              o_published = False, o_published_at = None, o_created_at = None,
              o_updated_at = None \<rparr>"

definition out_b :: BlogPostOut where
  \<comment> \<open>\<open>post_b\<close> serialized\<close>
  "out_b = \<lparr> o_id = id_b, o_title = ''Second'', o_slug = ''second'', o_excerpt = None,
              o_content = ''text'', o_author = ''Jo'', o_cover_image_url = None,
              o_tags = [''foo''], o_published = True, o_published_at = Some 100,
              o_created_at = Some 90, o_updated_at = None \<rparr>"

definition store_down :: store where
  \<comment> \<open>the sample store at a moment when the next call of the driver raises\<close>
  "store_down = sample_store\<lparr>faults := [Some ''connection refused'']\<rparr>"

definition null_tags :: BlogPostUpdate where
  \<comment> \<open>the request body \<open>{"tags": null}\<close>\<close>
  "null_tags = no_fields\<lparr>u_tags := Some None\<rparr>"

definition publish_now :: BlogPostUpdate where
  \<comment> \<open>the request body \<open>{"published": true}\<close>\<close>
  "publish_now = no_fields\<lparr>u_published := Some (Some True)\<rparr>"

definition unpublish :: BlogPostUpdate where
  \<comment> \<open>the request body \<open>{"published": false}\<close>\<close>
  "unpublish = no_fields\<lparr>u_published := Some (Some False)\<rparr>"

definition publish_dated :: BlogPostUpdate where
  \<comment> \<open>the request body \<open>{"published": true, "published_at": ...}\<close> with the datetime 2020\<close>
  "publish_dated = no_fields\<lparr>u_published := Some (Some True), u_published_at := Some (Some 2020)\<rparr>"

definition null_title :: BlogPostUpdate where
  \<comment> \<open>the request body \<open>{"title": null}\<close>\<close>
  "null_title = no_fields\<lparr>u_title := Some None\<rparr>"

definition payload_published :: BlogPost where
  \<comment> \<open>the sample payload with \<open>published: true\<close>\<close>
  "payload_published = payload_hi\<lparr>published := True\<rparr>"

definition expected_published_at :: "BlogPost \<Rightarrow> time \<Rightarrow> time option" where
  \<comment> \<open>what the create operation is to store as \<open>published_at\<close>: the supplied value, or
      the reading of the clock for a published post without one, or null\<close>
  "expected_published_at payload now =
     (case published_at payload of
        Some t \<Rightarrow> Some t
      | None \<Rightarrow> if published payload then Some now else None)"

section \<open>Facts about dicts and the store\<close>

lemma map_of_set_first:
  "map_of (set_first i upd ds) j =
     (if j = i then map_option (\<lambda>body. AList.merge body upd) (map_of ds i) else map_of ds j)"
  by (induction ds) auto

lemma find_map_of: "List.find (\<lambda>d. fst d = i) ds = map_option (\<lambda>b. (i, b)) (map_of ds i)"
  by (induction ds) auto

lemma exists_map_of: "(\<exists>d \<in> set ds. fst d = i) \<longleftrightarrow> map_of ds i \<noteq> None"
  by (induction ds) auto

lemma dump_empty_iff:
  "model_dump_exclude_unset p = [] \<longleftrightarrow>
     u_title p = None \<and> u_slug p = None \<and> u_excerpt p = None \<and> u_content p = None \<and>
     u_author p = None \<and> u_cover_image_url p = None \<and> u_tags p = None \<and>
     u_published p = None \<and> u_published_at p = None"
  by (simp add: model_dump_exclude_unset_def dump_set_def split: option.splits)

lemma ObjectId_hex_id_a: "ObjectId_hex id_a = Some id_a"
  by (simp add: ObjectId_hex_def id_a_def)

lemma ObjectId_hex_id_c: "ObjectId_hex id_c = Some id_c"
  by (simp add: ObjectId_hex_def id_c_def)

lemma ObjectId_hex_short: "ObjectId_hex ''42'' = None"
  by (simp add: ObjectId_hex_def)

section \<open>An update without fields\<close>

text \<open>
  C6. An update request whose body sets no field is answered with status 400, whatever
  the identifier is and whatever the store holds; the database handle comes back as it
  was, the pending outcomes of the driver's calls included, so no call to the store was
  made and the stored state is unchanged.
\<close>

theorem C6_empty_update_rejected:
  assumes "u_title p = None" "u_slug p = None" "u_excerpt p = None" "u_content p = None"
    "u_author p = None" "u_cover_image_url p = None" "u_tags p = None"
    "u_published p = None" "u_published_at p = None"
  shows "status_code (fst (update_post ObjectId db t_pub t_upd post_id p)) = 400 \<and>
         snd (update_post ObjectId db t_pub t_upd post_id p) = db"
proof -
  have "model_dump_exclude_unset p = []"
    using assms by (simp add: dump_empty_iff)
  then show ?thesis
    by (simp add: update_post_def split: option.splits)
qed

theorem C6_empty_update_rejected_witness:
  "status_code (fst (update_post ObjectId_hex (Some sample_store) 7 8 id_a no_fields)) = 400 \<and>
   snd (update_post ObjectId_hex (Some sample_store) 7 8 id_a no_fields) = Some sample_store \<and>
   status_code (fst (update_post ObjectId_hex (Some sample_store) 7 8 ''42'' no_fields)) = 400"
  using C6_empty_update_rejected [of no_fields ObjectId_hex "Some sample_store" 7 8 id_a]
    C6_empty_update_rejected [of no_fields ObjectId_hex "Some sample_store" 7 8 "''42''"]
  by (simp add: no_fields_def)

section \<open>The diagnostics endpoint never fails\<close>

text \<open>
  C8. For every value of the environment variable and every database handle, the
  diagnostics endpoint returns its status object (status 200) and raises nothing; the
  \<open>collections\<close> entry has at most 10 names; and when the call that lists the
  collections raises, the failure is reported in the \<open>database\<close> entry as the warning
  sign with the text "Connected but Error:" and the first 80 characters of the message.
\<close>

theorem C8_diagnostics_never_raises:
  "\<exists>r db'. test_database getenv db = (Inr r, db') \<and>
       status_code (fst (test_database getenv db)) = 200 \<and>
       length (collections r) \<le> 10 \<and>
       (db = Some s \<and> faults s = Some msg # fs \<longrightarrow>
          database r = (Some WarningSign, '' Connected but Error: '' @ take 80 msg))"
  by (auto simp add: test_database_def test_database_body_def list_collection_names_def
      driver_call_def Let_def split: option.splits list.splits)

theorem C8_diagnostics_never_raises_witness:
  "\<exists>r db'. test_database None (Some (sample_store\<lparr>faults := [Some ''timed out'']\<rparr>)) = (Inr r, db') \<and>
       length (collections r) \<le> 10 \<and>
       database r = (Some WarningSign, '' Connected but Error: timed out'')"
  using C8_diagnostics_never_raises
    [of None "Some (sample_store\<lparr>faults := [Some ''timed out'']\<rparr>)"
        "sample_store\<lparr>faults := [Some ''timed out'']\<rparr>" "''timed out''" "[]"]
  by (auto simp add: sample_store_def)

section \<open>The sample store, evaluated\<close>

lemma serialize_post_a: "serialize_post post_a = Inr out_a"
  by (simp add: serialize_post_def build_out_def post_a_def model_dump_def payload_hi_def
      opt_def dict_get_def dict_get_default_def out_a_def)

lemma serialize_post_b: "serialize_post post_b = Inr out_b"
  by (simp add: serialize_post_def build_out_def post_b_def dict_get_def dict_get_default_def
      out_b_def)

lemma created_at_a: "dict_get (snd post_a) ''created_at'' = VNull"
  by (simp add: post_a_def model_dump_def dict_get_def)

lemma created_at_b: "dict_get (snd post_b) ''created_at'' = VTime 90"
  by (simp add: post_b_def dict_get_def)

lemma sort_desc_sample: "sort_desc ''created_at'' [post_a, post_b] = [post_b, post_a]"
  by (simp add: sort_desc_def created_at_a created_at_b)

lemma list_sample_unfiltered:
  "t = None \<or> t = Some [] \<Longrightarrow>
   list_posts (Some sample_store) None t limit =
     (case serialize_all (cursor_limit limit [post_b, post_a]) of
        Inl e \<Rightarrow> (Inl e, Some sample_store) | Inr outs \<Rightarrow> (Inr outs, Some sample_store))"
  by (auto simp add: list_posts_def find_sort_limit_def driver_call_def sample_store_def
      matches_def sort_desc_sample split: sum.splits)

lemma list_sample_limit_0: "fst (list_posts (Some sample_store) None None 0) = Inr [out_b, out_a]"
  by (simp add: list_sample_unfiltered cursor_limit_def serialize_post_a serialize_post_b)

lemma list_sample_empty_tag:
  "fst (list_posts (Some sample_store) None (Some []) 50) = Inr [out_b, out_a]"
  by (simp add: list_sample_unfiltered cursor_limit_def serialize_post_a serialize_post_b)

section \<open>The empty tag\<close>

text \<open>
  C10. A list request with the tag given as the empty string does what a request without
  the tag parameter does: the handler tests the tag for truth, so no condition on
  \<open>tags\<close> goes into the filter. The result may hold posts whose tags do not contain the
  empty string: on the sample store it holds both posts, and the first of them has the
  tags \<open>["foo"]\<close>.
\<close>

theorem C10_empty_tag_is_no_tag:
  "list_posts db published_p (Some []) limit = list_posts db published_p None limit \<and>
   (\<exists>outs out. fst (list_posts (Some sample_store) None (Some []) 50) = Inr (out # outs) \<and>
        o_tags out = [''foo''])"
  by (simp add: list_sample_empty_tag out_b_def) (simp add: list_posts_def)

theorem C10_empty_tag_is_no_tag_witness:
  "list_posts (Some sample_store) (Some True) (Some []) 1 =
     list_posts (Some sample_store) (Some True) None 1"
  using C10_empty_tag_is_no_tag [of "Some sample_store" "Some True" 1] by simp

section \<open>Storage failures\<close>

lemma driver_call_ok:
  "next_calls_ok (Suc n) s \<Longrightarrow>
   \<exists>s'. driver_call s = (None, s') \<and> blogpost s' = blogpost s \<and>
        coll_names s' = coll_names s \<and> db_name s' = db_name s \<and> next_calls_ok n s'"
  by (cases "faults s") (auto simp add: next_calls_ok_def driver_call_def)

lemma driver_call_down: "faults s = Some msg # fs \<Longrightarrow> driver_call s = (Some msg, s\<lparr>faults := fs\<rparr>)"
  by (simp add: driver_call_def)

lemma get_post_storage_error:
  "ObjectId post_id = Some i \<Longrightarrow> faults s = Some msg # fs \<Longrightarrow>
   fst (get_post ObjectId (Some s) post_id) = Inl (HTTPException 400 ''Invalid post id'')"
  by (simp add: get_post_def find_one_def driver_call_down)

lemma delete_post_storage_error:
  "ObjectId post_id = Some i \<Longrightarrow> faults s = Some msg # fs \<Longrightarrow>
   fst (delete_post ObjectId (Some s) post_id) = Inl (StorageError msg)"
  by (simp add: delete_post_def delete_one_def driver_call_down)

lemma update_post_storage_error:
  "ObjectId post_id = Some i \<Longrightarrow> faults s = Some msg # fs \<Longrightarrow>
   model_dump_exclude_unset p \<noteq> [] \<Longrightarrow>
   fst (update_post ObjectId (Some s) t_pub t_upd post_id p) = Inl (StorageError msg)"
  by (simp add: update_post_def update_one_def driver_call_down)

lemma list_posts_storage_error:
  "faults s = Some msg # fs \<Longrightarrow>
   fst (list_posts (Some s) published_p tag limit) = Inl (StorageError msg)"
  by (simp add: list_posts_def find_sort_limit_def driver_call_down)

lemma create_post_storage_error:
  "faults s = Some msg # fs \<Longrightarrow>
   fst (create_post ObjectId (Some s) new_id now payload) = Inl (StorageError msg)"
  by (simp add: create_post_def create_document_def insert_one_def driver_call_down)

lemma null_tags_dump: "model_dump_exclude_unset null_tags = [(''tags'', VNull)]"
  by (simp add: null_tags_def no_fields_def model_dump_exclude_unset_def dump_set_def opt_def)

text \<open>
  C7. The claim is that a failure of the store during a CRUD operation leaves the
  handler as a server error (5xx) and is never turned into a client error. \<open>get_post\<close>
  has the call \<open>find_one\<close> inside the \<open>try\<close> that guards the parsing of the
  identifier: with a well-formed identifier of a stored post and a store whose next call
  raises, it answers 400 "Invalid post id", where \<open>delete_post\<close>, \<open>update_post\<close> and
  \<open>list_posts\<close> on the same store answer 500.
\<close>

theorem C7_get_post_storage_error_is_400:
  "ObjectId_hex id_a = Some id_a \<and>
   fst (get_post ObjectId_hex (Some store_down) id_a) = Inl (HTTPException 400 ''Invalid post id'') \<and>
   status_code (fst (get_post ObjectId_hex (Some store_down) id_a)) = 400 \<and>
   status_code (fst (delete_post ObjectId_hex (Some store_down) id_a)) = 500 \<and>
   status_code (fst (update_post ObjectId_hex (Some store_down) 7 8 id_a null_tags)) = 500 \<and>
   status_code (fst (list_posts (Some store_down) None None 50)) = 500"
proof -
  have f: "faults store_down = Some ''connection refused'' # []"
    by (simp add: store_down_def)
  show ?thesis
    by (simp add: ObjectId_hex_id_a null_tags_dump
        get_post_storage_error [of ObjectId_hex id_a id_a, OF ObjectId_hex_id_a f]
        delete_post_storage_error [of ObjectId_hex id_a id_a, OF ObjectId_hex_id_a f]
        update_post_storage_error [of ObjectId_hex id_a id_a, OF ObjectId_hex_id_a f]
        list_posts_storage_error [OF f])
qed

section \<open>Null tags\<close>

text \<open>
  C9. The claim is that no operation can store null as a post's tags. The update with
  the body \<open>{"tags": null}\<close> on a stored post writes null into \<open>tags\<close>: the stored
  document then has \<open>tags\<close> null, the update itself ends in the validation error of
  \<open>BlogPostOut\<close> (status 500) after the store was changed, and so does every later get of
  the post.
\<close>

theorem C9_update_stores_null_tags:
  "\<exists>s' body.
     update_post ObjectId_hex (Some sample_store) 7 8 id_a null_tags = (Inl ValidationError, Some s') \<and>
     map_of (blogpost s') id_a = Some body \<and>
     map_of body ''tags'' = Some VNull \<and>
     status_code (fst (update_post ObjectId_hex (Some sample_store) 7 8 id_a null_tags)) = 500 \<and>
     get_post ObjectId_hex (Some s') id_a = (Inl ValidationError, Some s')"
  by (simp add: update_post_def ObjectId_hex_id_a null_tags_dump update_one_def driver_call_def
      sample_store_def stamp_update_def contains_def dict_set_def find_one_def get_post_def
      post_a_def post_b_def model_dump_def payload_hi_def opt_def
      serialize_post_def build_out_def dict_get_def dict_get_default_def)

section \<open>Identifiers\<close>

lemma driver_call_blogpost: "blogpost (snd (driver_call s)) = blogpost s"
  by (simp add: driver_call_def split: list.splits)

lemma find_one_blogpost: "blogpost (snd (find_one s i)) = blogpost s"
  using driver_call_blogpost [of s]
  by (auto simp add: find_one_def split: prod.splits option.splits)

lemma get_post_missing:
  assumes "ObjectId post_id = Some i" "map_of (blogpost s) i = None" "next_calls_ok 1 s"
  shows "fst (get_post ObjectId (Some s) post_id) = Inl (HTTPException 404 ''Post not found'')"
proof -
  from assms(3) obtain s' where "driver_call s = (None, s')" "blogpost s' = blogpost s"
    using driver_call_ok [of 0 s] by auto
  then show ?thesis
    using assms(1,2) by (simp add: get_post_def find_one_def find_map_of)
qed

lemma delete_post_missing:
  assumes "ObjectId post_id = Some i" "map_of (blogpost s) i = None" "next_calls_ok 1 s"
  shows "fst (delete_post ObjectId (Some s) post_id) = Inl (HTTPException 404 ''Post not found'')"
proof -
  from assms(3) obtain s' where "driver_call s = (None, s')" "blogpost s' = blogpost s"
    using driver_call_ok [of 0 s] by auto
  then show ?thesis
    using assms(1,2) by (simp add: delete_post_def delete_one_def exists_map_of)
qed

lemma update_post_missing:
  assumes "ObjectId post_id = Some i" "map_of (blogpost s) i = None" "next_calls_ok 1 s"
    "model_dump_exclude_unset p \<noteq> []"
  shows "fst (update_post ObjectId (Some s) t_pub t_upd post_id p) =
           Inl (HTTPException 404 ''Post not found'')"
proof -
  from assms(3) obtain s' where "driver_call s = (None, s')" "blogpost s' = blogpost s"
    using driver_call_ok [of 0 s] by auto
  then show ?thesis
    using assms(1,2,4) by (simp add: update_post_def update_one_def exists_map_of)
qed

text \<open>
  C5, as stated, fails for the update operation: with a well-formed identifier that no
  stored document has and a body that sets no field, \<open>update_post\<close> answers 400 ("No
  data to update"), not 404; the check of the body comes before the store is asked.
\<close>

theorem C5_counterexample:
  "ObjectId_hex id_c = Some id_c \<and>
   stored (Some sample_store) id_c = None \<and>
   fst (update_post ObjectId_hex (Some sample_store) 7 8 id_c no_fields) =
     Inl (HTTPException 400 ''No data to update'') \<and>
   status_code (fst (update_post ObjectId_hex (Some sample_store) 7 8 id_c no_fields)) \<noteq> 404"
  by (simp add: ObjectId_hex_id_c update_post_def dump_empty_iff no_fields_def)
    (simp add: stored_def sample_store_def post_a_def post_b_def id_a_def id_b_def id_c_def)

text \<open>
  C5, amended. An identifier string that the parser refuses makes get, update and
  delete answer 400, whatever the database handle and the body are. An identifier that
  parses and that no stored document has makes get and delete answer 404, and update
  too when its body sets at least one field, provided the call to the store does not
  raise.
\<close>

theorem C5_invalid_id_400_missing_id_404:
  "(ObjectId post_id = None \<longrightarrow>
      status_code (fst (get_post ObjectId db post_id)) = 400 \<and>
      status_code (fst (update_post ObjectId db t_pub t_upd post_id p)) = 400 \<and>
      status_code (fst (delete_post ObjectId db post_id)) = 400) \<and>
   (ObjectId post_id = Some i \<and> map_of (blogpost s) i = None \<and> next_calls_ok 1 s \<longrightarrow>
      status_code (fst (get_post ObjectId (Some s) post_id)) = 404 \<and>
      status_code (fst (delete_post ObjectId (Some s) post_id)) = 404 \<and>
      (model_dump_exclude_unset p \<noteq> [] \<longrightarrow>
         status_code (fst (update_post ObjectId (Some s) t_pub t_upd post_id p)) = 404))"
proof -
  have "status_code (fst (get_post ObjectId db post_id)) = 400"
    if "ObjectId post_id = None"
    using that by (simp add: get_post_def split: option.splits)
  moreover have "status_code (fst (update_post ObjectId db t_pub t_upd post_id p)) = 400"
    if "ObjectId post_id = None"
    using that by (simp add: update_post_def)
  moreover have "status_code (fst (delete_post ObjectId db post_id)) = 400"
    if "ObjectId post_id = None"
    using that by (simp add: delete_post_def)
  ultimately show ?thesis
    by (simp add: get_post_missing delete_post_missing update_post_missing)
qed

theorem C5_invalid_id_400_missing_id_404_witness:
  "status_code (fst (get_post ObjectId_hex (Some sample_store) ''42'')) = 400 \<and>
   status_code (fst (update_post ObjectId_hex (Some sample_store) 7 8 ''42'' null_tags)) = 400 \<and>
   status_code (fst (delete_post ObjectId_hex (Some sample_store) ''42'')) = 400 \<and>
   status_code (fst (get_post ObjectId_hex (Some sample_store) id_c)) = 404 \<and>
   status_code (fst (delete_post ObjectId_hex (Some sample_store) id_c)) = 404 \<and>
   status_code (fst (update_post ObjectId_hex (Some sample_store) 7 8 id_c null_tags)) = 404"
proof -
  have m: "map_of (blogpost sample_store) id_c = None"
    by (simp add: sample_store_def post_a_def post_b_def id_a_def id_b_def id_c_def)
  have ok: "next_calls_ok (Suc 0) sample_store"
    by (simp add: next_calls_ok_def sample_store_def)
  show ?thesis
    using C5_invalid_id_400_missing_id_404
        [of ObjectId_hex "''42''" "Some sample_store" 7 8 null_tags id_c sample_store]
      C5_invalid_id_400_missing_id_404
        [of ObjectId_hex id_c "Some sample_store" 7 8 null_tags id_c sample_store]
    by (simp add: ObjectId_hex_short ObjectId_hex_id_c m ok null_tags_dump)
qed

section \<open>The fields an update applies\<close>

lemma map_of_dump_set:
  "map_of (dump_set k f x) k' = (if k' = k then map_option (opt f) x else None)"
  by (simp add: dump_set_def split: option.splits)

lemma dump_title: "map_of (model_dump_exclude_unset p) ''title'' = map_option (opt VStr) (u_title p)"
  by (simp add: model_dump_exclude_unset_def map_add_def map_of_dump_set split: option.splits)

lemma dump_published:
  "map_of (model_dump_exclude_unset p) ''published'' = map_option (opt VBool) (u_published p)"
  by (simp add: model_dump_exclude_unset_def map_add_def map_of_dump_set split: option.splits)

lemma dump_published_at:
  "map_of (model_dump_exclude_unset p) ''published_at'' = map_option (opt VTime) (u_published_at p)"
  by (simp add: model_dump_exclude_unset_def map_add_def map_of_dump_set split: option.splits)

lemma dump_updated_at: "map_of (model_dump_exclude_unset p) ''updated_at'' = None"
  by (simp add: model_dump_exclude_unset_def map_add_def map_of_dump_set split: option.splits)

lemma map_of_stamp_update:
  "map_of (stamp_update d t_pub t_upd) k =
     (if k = ''updated_at'' then Some (VTime t_upd)
      else if k = ''published_at'' \<and> \<not> contains d ''published_at'' \<and> contains d ''published'' \<and>
              truthy (dict_get d ''published'')
        then Some (VTime t_pub)
      else if k = ''published_at'' \<and> \<not> contains d ''published_at'' \<and> contains d ''published'' \<and>
              dict_get d ''published'' = VBool False
        then Some VNull
      else map_of d k)"
  by (auto simp add: stamp_update_def setdefault_def dict_set_def contains_def dict_get_def
      Let_def AList.update_conv')

lemma update_post_store:
  assumes "ObjectId post_id = Some i" "model_dump_exclude_unset p \<noteq> []" "next_calls_ok 1 s"
    "map_of (blogpost s) i = Some body"
  shows "\<exists>s'. snd (update_post ObjectId (Some s) t_pub t_upd post_id p) = Some s' \<and>
            blogpost s' =
              set_first i (stamp_update (model_dump_exclude_unset p) t_pub t_upd) (blogpost s)"
proof -
  from assms(3) obtain s1 where s1: "driver_call s = (None, s1)" "blogpost s1 = blogpost s"
    using driver_call_ok [of 0 s] by auto
  define s2 where
    "s2 = s1\<lparr>blogpost := set_first i (stamp_update (model_dump_exclude_unset p) t_pub t_upd) (blogpost s1)\<rparr>"
  have u: "update_one s i (stamp_update (model_dump_exclude_unset p) t_pub t_upd) = (Inr 1, s2)"
    using s1 assms(4) by (simp add: update_one_def exists_map_of s2_def)
  have b: "blogpost (snd (find_one s2 i)) = blogpost s2"
    by (rule find_one_blogpost)
  have "\<exists>s'. snd (update_post ObjectId (Some s) t_pub t_upd post_id p) = Some s' \<and>
            blogpost s' = blogpost s2"
    using assms(1,2) u b
    by (cases "find_one s2 i") (auto simp add: update_post_def split: sum.splits option.splits)
  then show ?thesis
    using s1 by (simp add: s2_def)
qed

lemma update_post_stored:
  assumes "ObjectId post_id = Some i" "model_dump_exclude_unset p \<noteq> []" "next_calls_ok 1 s"
    "map_of (blogpost s) i = Some body"
  shows "stored (snd (update_post ObjectId (Some s) t_pub t_upd post_id p)) j =
           (if j = i
            then Some (AList.merge body (stamp_update (model_dump_exclude_unset p) t_pub t_upd))
            else map_of (blogpost s) j)"
  using update_post_store [where ObjectId = ObjectId and post_id = post_id and t_pub = t_pub
      and t_upd = t_upd, OF assms] assms(4)
  by (auto simp add: stored_def map_of_set_first)

text \<open>
  C1. In the field set that \<open>update_post\<close> applies (the argument of \<open>$set\<close>): a body
  with \<open>published\<close> true and no \<open>published_at\<close> gets \<open>published_at\<close> = the reading of
  the clock; a body with \<open>published\<close> false and no \<open>published_at\<close> gets
  \<open>published_at\<close> = null; a body that supplies \<open>published_at\<close> (with \<open>published\<close> or
  without) has the supplied value applied unchanged. And when the identifier parses, the
  post is stored and the store answers, every field of that set is written to the stored
  post with its value.
\<close>

theorem C1_update_publish_stamp:
  "(u_published p = Some (Some True) \<and> u_published_at p = None \<longrightarrow>
      map_of (stamp_update (model_dump_exclude_unset p) t_pub t_upd) ''published_at'' =
        Some (VTime t_pub)) \<and>
   (u_published p = Some (Some False) \<and> u_published_at p = None \<longrightarrow>
      map_of (stamp_update (model_dump_exclude_unset p) t_pub t_upd) ''published_at'' =
        Some VNull) \<and>
   (u_published_at p = Some v \<longrightarrow>
      map_of (stamp_update (model_dump_exclude_unset p) t_pub t_upd) ''published_at'' =
        Some (opt VTime v)) \<and>
   (ObjectId post_id = Some i \<and> model_dump_exclude_unset p \<noteq> [] \<and> next_calls_ok 1 s \<and>
    map_of (blogpost s) i = Some body \<and>
    map_of (stamp_update (model_dump_exclude_unset p) t_pub t_upd) k = Some w \<longrightarrow>
      (\<exists>body'. stored (snd (update_post ObjectId (Some s) t_pub t_upd post_id p)) i = Some body' \<and>
         map_of body' k = Some w))"
proof -
  have "map_of (stamp_update (model_dump_exclude_unset p) t_pub t_upd) ''published_at'' =
          Some (VTime t_pub)"
    if "u_published p = Some (Some True)" "u_published_at p = None"
    using that
    by (simp add: map_of_stamp_update contains_def dict_get_def dump_published dump_published_at
        opt_def)
  moreover have "map_of (stamp_update (model_dump_exclude_unset p) t_pub t_upd) ''published_at'' =
          Some VNull"
    if "u_published p = Some (Some False)" "u_published_at p = None"
    using that
    by (simp add: map_of_stamp_update contains_def dict_get_def dump_published dump_published_at
        opt_def)
  moreover have "map_of (stamp_update (model_dump_exclude_unset p) t_pub t_upd) ''published_at'' =
          Some (opt VTime v)"
    if "u_published_at p = Some v"
    using that
    by (simp add: map_of_stamp_update contains_def dump_published_at)
  moreover have "\<exists>body'. stored (snd (update_post ObjectId (Some s) t_pub t_upd post_id p)) i = Some body' \<and>
         map_of body' k = Some w"
    if "ObjectId post_id = Some i" "model_dump_exclude_unset p \<noteq> []" "next_calls_ok 1 s"
      "map_of (blogpost s) i = Some body"
      "map_of (stamp_update (model_dump_exclude_unset p) t_pub t_upd) k = Some w"
    using update_post_stored [where ObjectId = ObjectId and post_id = post_id and t_pub = t_pub
        and t_upd = t_upd and j = i, OF that(1-4)] that(5)
    by (simp add: AList.merge_conv')
  ultimately show ?thesis
    by blast
qed

lemma sample_stored_a: "map_of (blogpost sample_store) id_a = Some (snd post_a)"
  by (simp add: sample_store_def post_a_def)

lemma sample_calls_ok: "next_calls_ok n sample_store"
  by (simp add: next_calls_ok_def sample_store_def)

theorem C1_update_publish_stamp_witness:
  "map_of (stamp_update (model_dump_exclude_unset publish_now) 7 8) ''published_at'' = Some (VTime 7) \<and>
   map_of (stamp_update (model_dump_exclude_unset unpublish) 7 8) ''published_at'' = Some VNull \<and>
   map_of (stamp_update (model_dump_exclude_unset publish_dated) 7 8) ''published_at'' =
     Some (VTime 2020) \<and>
   (\<exists>body'. stored (snd (update_post ObjectId_hex (Some sample_store) 7 8 id_a publish_now)) id_a =
        Some body' \<and> map_of body' ''published_at'' = Some (VTime 7))"
proof -
  have 1: "map_of (stamp_update (model_dump_exclude_unset publish_now) 7 8) ''published_at'' =
      Some (VTime 7)"
    using C1_update_publish_stamp [where p = publish_now and t_pub = 7 and t_upd = 8]
    by (simp add: publish_now_def no_fields_def)
  have 2: "map_of (stamp_update (model_dump_exclude_unset unpublish) 7 8) ''published_at'' =
      Some VNull"
    using C1_update_publish_stamp [where p = unpublish and t_pub = 7 and t_upd = 8]
    by (simp add: unpublish_def no_fields_def)
  have 3: "map_of (stamp_update (model_dump_exclude_unset publish_dated) 7 8) ''published_at'' =
      Some (VTime 2020)"
    using C1_update_publish_stamp [where p = publish_dated and t_pub = 7 and t_upd = 8
        and v = "Some 2020"]
    by (simp add: publish_dated_def no_fields_def opt_def)
  have ne: "model_dump_exclude_unset publish_now \<noteq> []"
    by (simp add: dump_empty_iff publish_now_def no_fields_def)
  have 4: "\<exists>body'. stored (snd (update_post ObjectId_hex (Some sample_store) 7 8 id_a publish_now)) id_a =
        Some body' \<and> map_of body' ''published_at'' = Some (VTime 7)"
    using C1_update_publish_stamp [where p = publish_now and t_pub = 7 and t_upd = 8
        and ObjectId = ObjectId_hex and post_id = id_a and i = id_a and s = sample_store
        and body = "snd post_a" and k = "''published_at''" and w = "VTime 7"]
      1 ne ObjectId_hex_id_a sample_stored_a sample_calls_ok [of 1]
    by simp
  show ?thesis
    using 1 2 3 4 by simp
qed

section \<open>The frame of an update\<close>

text \<open>
  C2. When the identifier parses, the body sets at least one field, the post is stored and
  the store answers, the stored post after \<open>update_post\<close> has: every field the body
  sets, with the value of the body (also an explicit null); \<open>updated_at\<close> = the reading
  of the clock; \<open>published_at\<close>, when the body does not set it, stamped as the
  publish-state lines say, or else as before; every other field as before. So a field
  set to null is written (\<open>title\<close> becomes null) and a field left out is untouched
  (\<open>title\<close> stays). The other stored posts stay as they were.
\<close>

theorem C2_partial_update_frame:
  assumes "ObjectId post_id = Some i" and "model_dump_exclude_unset p \<noteq> []"
    and "next_calls_ok 1 s" and "map_of (blogpost s) i = Some body"
  shows "\<exists>body'.
     stored (snd (update_post ObjectId (Some s) t_pub t_upd post_id p)) i = Some body' \<and>
     (\<forall>k v. map_of (model_dump_exclude_unset p) k = Some v \<longrightarrow> map_of body' k = Some v) \<and>
     map_of body' ''updated_at'' = Some (VTime t_upd) \<and>
     (u_published_at p = None \<longrightarrow>
        map_of body' ''published_at'' =
          (case u_published p of
             Some (Some True) \<Rightarrow> Some (VTime t_pub)
           | Some (Some False) \<Rightarrow> Some VNull
           | _ \<Rightarrow> map_of body ''published_at'')) \<and>
     (\<forall>k. map_of (model_dump_exclude_unset p) k = None \<and> k \<noteq> ''published_at'' \<and>
          k \<noteq> ''updated_at'' \<longrightarrow> map_of body' k = map_of body k) \<and>
     (u_title p = Some None \<longrightarrow> map_of body' ''title'' = Some VNull) \<and>
     (u_title p = None \<longrightarrow> map_of body' ''title'' = map_of body ''title'') \<and>
     (\<forall>j. j \<noteq> i \<longrightarrow>
        stored (snd (update_post ObjectId (Some s) t_pub t_upd post_id p)) j =
          map_of (blogpost s) j)"
proof -
  let ?d = "model_dump_exclude_unset p"
  let ?ud = "stamp_update ?d t_pub t_upd"
  let ?body' = "AList.merge body ?ud"
  have st: "stored (snd (update_post ObjectId (Some s) t_pub t_upd post_id p)) j =
      (if j = i then Some ?body' else map_of (blogpost s) j)" for j
    using update_post_stored [where ObjectId = ObjectId and post_id = post_id and t_pub = t_pub
        and t_upd = t_upd and j = j, OF assms] .
  have m: "map_of ?body' k = (case map_of ?ud k of None \<Rightarrow> map_of body k | Some v \<Rightarrow> Some v)" for k
    by (simp add: AList.merge_conv' map_add_def)
  have a: "map_of ?body' k = Some v" if "map_of ?d k = Some v" for k v
  proof -
    have 1: "k \<noteq> ''updated_at''"
      using that dump_updated_at [of p] by auto
    have 2: "k = ''published_at'' \<longrightarrow> contains ?d ''published_at''"
      using that by (auto simp add: contains_def)
    have "map_of ?ud k = map_of ?d k"
      unfolding map_of_stamp_update using 1 2 by auto
    then show ?thesis
      using that by (simp add: m)
  qed
  have b: "map_of ?body' ''updated_at'' = Some (VTime t_upd)"
    by (simp add: m map_of_stamp_update)
  have ud_pa: "map_of ?ud ''published_at'' =
      (if u_published p = Some (Some True) then Some (VTime t_pub)
       else if u_published p = Some (Some False) then Some VNull else None)"
    if "u_published_at p = None"
  proof -
    have 1: "\<not> contains ?d ''published_at''"
      using that by (simp add: contains_def dump_published_at)
    have 2: "contains ?d ''published'' \<and> truthy (dict_get ?d ''published'') \<longleftrightarrow>
        u_published p = Some (Some True)"
      by (cases "u_published p" rule: option.exhaust)
        (auto simp add: contains_def dict_get_def dump_published opt_def split: option.splits)
    have 3: "contains ?d ''published'' \<and> dict_get ?d ''published'' = VBool False \<longleftrightarrow>
        u_published p = Some (Some False)"
      by (cases "u_published p" rule: option.exhaust)
        (auto simp add: contains_def dict_get_def dump_published opt_def split: option.splits)
    have 4: "map_of ?d ''published_at'' = None"
      using that by (simp add: dump_published_at)
    show ?thesis
      unfolding map_of_stamp_update using 1 2 3 4 by simp
  qed
  have c: "map_of ?body' ''published_at'' =
          (case u_published p of
             Some (Some True) \<Rightarrow> Some (VTime t_pub)
           | Some (Some False) \<Rightarrow> Some VNull
           | _ \<Rightarrow> map_of body ''published_at'')"
    if "u_published_at p = None"
  proof (cases "u_published p")
    case None
    then show ?thesis by (simp add: m ud_pa [OF that])
  next
    case (Some b)
    then show ?thesis
      by (cases b) (simp_all add: m ud_pa [OF that])
  qed
  have d: "map_of ?body' k = map_of body k"
    if "map_of ?d k = None" "k \<noteq> ''published_at''" "k \<noteq> ''updated_at''" for k
    using that by (simp add: m map_of_stamp_update)
  have e: "map_of ?body' ''title'' = Some VNull" if "u_title p = Some None"
    using that a [of "''title''" VNull] by (simp add: dump_title opt_def)
  have f: "map_of ?body' ''title'' = map_of body ''title''" if "u_title p = None"
    using that d [of "''title''"] by (simp add: dump_title)
  have g: "stored (snd (update_post ObjectId (Some s) t_pub t_upd post_id p)) i = Some ?body'"
    by (simp add: st)
  have h: "\<forall>j. j \<noteq> i \<longrightarrow>
        stored (snd (update_post ObjectId (Some s) t_pub t_upd post_id p)) j =
          map_of (blogpost s) j"
    by (simp add: st)
  show ?thesis
    by (rule exI [of _ ?body']) (use a b c d e f g h in blast)
qed

theorem C2_partial_update_frame_witness:
  "\<exists>body'.
     stored (snd (update_post ObjectId_hex (Some sample_store) 7 8 id_a null_title)) id_a = Some body' \<and>
     map_of body' ''title'' = Some VNull \<and>
     map_of body' ''slug'' = Some (VStr ''hi-there'') \<and>
     map_of body' ''updated_at'' = Some (VTime 8) \<and>
     stored (snd (update_post ObjectId_hex (Some sample_store) 7 8 id_a null_title)) id_b =
       Some (snd post_b)"
proof -
  have ne: "model_dump_exclude_unset null_title \<noteq> []"
    by (simp add: dump_empty_iff null_title_def no_fields_def)
  have sl: "map_of (model_dump_exclude_unset null_title) ''slug'' = None"
    by (simp add: model_dump_exclude_unset_def null_title_def no_fields_def dump_set_def)
  have ab: "id_b \<noteq> id_a"
    by (simp add: id_a_def id_b_def)
  have b: "map_of (blogpost sample_store) id_b = Some (snd post_b)"
    using ab by (simp add: sample_store_def post_a_def post_b_def)
  have t: "u_title null_title = Some None"
    by (simp add: null_title_def no_fields_def)
  have s0: "map_of (snd post_a) ''slug'' = Some (VStr ''hi-there'')"
    by (simp add: post_a_def model_dump_def payload_hi_def)
  from C2_partial_update_frame [where ObjectId = ObjectId_hex and post_id = id_a and i = id_a
        and p = null_title and s = sample_store and body = "snd post_a" and t_pub = 7
        and t_upd = 8, OF ObjectId_hex_id_a ne sample_calls_ok sample_stored_a]
  obtain body' where
    1: "stored (snd (update_post ObjectId_hex (Some sample_store) 7 8 id_a null_title)) id_a =
          Some body'"
    and 2: "map_of body' ''updated_at'' = Some (VTime 8)"
    and 3: "\<forall>k. map_of (model_dump_exclude_unset null_title) k = None \<and> k \<noteq> ''published_at'' \<and>
          k \<noteq> ''updated_at'' \<longrightarrow> map_of body' k = map_of (snd post_a) k"
    and 4: "u_title null_title = Some None \<longrightarrow> map_of body' ''title'' = Some VNull"
    and 5: "\<forall>j. j \<noteq> id_a \<longrightarrow>
          stored (snd (update_post ObjectId_hex (Some sample_store) 7 8 id_a null_title)) j =
            map_of (blogpost sample_store) j"
    by blast
  have 6: "map_of body' ''slug'' = Some (VStr ''hi-there'')"
    using 3 sl s0 by simp
  show ?thesis
    using 1 2 4 5 6 t ab b by simp
qed

section \<open>Creating a post\<close>

lemma map_of_create_data:
  "map_of (create_data payload now) k =
     (if k = ''published_at'' \<and> published payload \<and> published_at payload = None
      then Some (VTime now) else map_of (model_dump payload) k)"
  by (simp add: create_data_def Let_def dict_set_def AList.update_conv' dict_get_def
      model_dump_def opt_def split: option.splits)

lemma dict_get_create_data:
  "dict_get (create_data payload now) k =
     (if k = ''published_at'' \<and> published payload \<and> published_at payload = None
      then VTime now else dict_get (model_dump payload) k)"
  by (simp add: dict_get_def map_of_create_data)

lemma dict_get_default_create_data:
  "k \<noteq> ''published_at'' \<Longrightarrow>
   dict_get_default (create_data payload now) k dflt = dict_get_default (model_dump payload) k dflt"
  by (simp add: dict_get_default_def map_of_create_data)

lemma dict_get_dump_published_at:
  "dict_get (model_dump payload) ''published_at'' = opt VTime (published_at payload)"
  by (simp add: dict_get_def model_dump_def)

lemma dict_get_create_data_published_at:
  "dict_get (create_data payload now) ''published_at'' =
     opt VTime (expected_published_at payload now)"
  by (simp add: dict_get_create_data dict_get_dump_published_at expected_published_at_def
      opt_def split: option.splits)

lemma build_out_create_data:
  "\<exists>out. build_out (i, create_data payload now) = Some out \<and>
      o_published_at out = expected_published_at payload now \<and>
      o_id out = i \<and> o_title out = title payload \<and> o_slug out = slug payload \<and>
      o_tags out = tags payload \<and> o_published out = published payload"
proof -
  have 1: "v_opt_time (dict_get (create_data payload now) ''published_at'') =
      Some (expected_published_at payload now)"
    by (simp add: dict_get_create_data_published_at opt_def split: option.splits)
  have 2: "v_opt_str (dict_get (model_dump payload) ''excerpt'') = Some (excerpt payload)"
    by (simp add: dict_get_def model_dump_def opt_def split: option.splits)
  have 3: "v_opt_str (dict_get (model_dump payload) ''cover_image_url'') =
      Some (cover_image_url payload)"
    by (simp add: dict_get_def model_dump_def opt_def split: option.splits)
  have 4: "dict_get (model_dump payload) ''title'' = VStr (title payload)"
    "dict_get (model_dump payload) ''slug'' = VStr (slug payload)"
    "dict_get (model_dump payload) ''content'' = VStr (content payload)"
    "dict_get (model_dump payload) ''author'' = VStr (author payload)"
    "dict_get (model_dump payload) ''created_at'' = VNull"
    "dict_get (model_dump payload) ''updated_at'' = VNull"
    "dict_get_default (model_dump payload) ''tags'' (VStrs []) = VStrs (tags payload)"
    "dict_get_default (model_dump payload) ''published'' (VBool False) = VBool (published payload)"
    by (simp_all add: dict_get_def dict_get_default_def model_dump_def)
  show ?thesis
    by (simp add: build_out_def 1 dict_get_create_data [of _ _ "''title''"]
        dict_get_create_data [of _ _ "''slug''"] dict_get_create_data [of _ _ "''excerpt''"]
        dict_get_create_data [of _ _ "''content''"] dict_get_create_data [of _ _ "''author''"]
        dict_get_create_data [of _ _ "''cover_image_url''"]
        dict_get_create_data [of _ _ "''created_at''"]
        dict_get_create_data [of _ _ "''updated_at''"]
        dict_get_default_create_data 2 3 4)
qed

lemma next_calls_ok_blogpost [simp]: "next_calls_ok n (s\<lparr>blogpost := ds\<rparr>) = next_calls_ok n s"
  by (simp add: next_calls_ok_def)

lemma create_post_result:
  assumes "ObjectId new_id = Some new_id" and "map_of (blogpost s) new_id = None"
    and "next_calls_ok 2 s"
  shows "\<exists>s'. create_post ObjectId (Some s) new_id now payload =
            (serialize_post (new_id, create_data payload now), Some s') \<and>
          map_of (blogpost s') new_id = Some (create_data payload now)"
proof -
  let ?data = "create_data payload now"
  from assms(3) have "next_calls_ok (Suc (Suc 0)) s"
    by (simp add: numeral_2_eq_2)
  then obtain s1 where s1: "driver_call s = (None, s1)" "blogpost s1 = blogpost s"
      "next_calls_ok (Suc 0) s1"
    using driver_call_ok [of "Suc 0" s] by auto
  define s2 where "s2 = s1\<lparr>blogpost := blogpost s1 @ [(new_id, ?data)]\<rparr>"
  have ins: "insert_one s new_id ?data = (Inr new_id, s2)"
    using s1 assms(2) by (simp add: insert_one_def exists_map_of s2_def)
  have "next_calls_ok (Suc 0) s2"
    using s1(3) by (simp add: s2_def)
  then obtain s3 where s3: "driver_call s2 = (None, s3)" "blogpost s3 = blogpost s2"
    using driver_call_ok [of 0 s2] by auto
  have m: "map_of (blogpost s2) new_id = Some ?data"
    using assms(2) s1(2) by (simp add: s2_def map_add_def)
  have f: "find_one s2 new_id = (Inr (Some (new_id, ?data)), s3)"
    using s3 m by (simp add: find_one_def find_map_of)
  have "create_post ObjectId (Some s) new_id now payload = (serialize_post (new_id, ?data), Some s3)"
    using ins f assms(1) by (simp add: create_post_def create_document_def)
  then show ?thesis
    using m s3(2) by auto
qed

text \<open>
  C3. A create request with a valid payload, handled while the store answers and with a
  fresh identifier from the driver, returns the created post. Its \<open>published_at\<close> is the
  reading of the clock when the payload has \<open>published\<close> true and no \<open>published_at\<close>;
  it is null when the payload has \<open>published\<close> false and no \<open>published_at\<close>; and it is
  the supplied value when the payload supplies one. The same value is in the dict handed
  to \<open>create_document\<close> and in the stored document.
\<close>

theorem C3_create_publish_stamp:
  assumes "valid_payload payload" and "ObjectId new_id = Some new_id"
    and "map_of (blogpost s) new_id = None" and "next_calls_ok 2 s"
  shows "\<exists>out db'.
     create_post ObjectId (Some s) new_id now payload = (Inr out, db') \<and>
     (published payload \<and> published_at payload = None \<longrightarrow> o_published_at out = Some now) \<and>
     (\<not> published payload \<and> published_at payload = None \<longrightarrow> o_published_at out = None) \<and>
     (published_at payload = Some t \<longrightarrow> o_published_at out = Some t) \<and>
     dict_get (create_data payload now) ''published_at'' = opt VTime (o_published_at out) \<and>
     stored db' new_id = Some (create_data payload now)"
proof -
  obtain s' where c: "create_post ObjectId (Some s) new_id now payload =
        (serialize_post (new_id, create_data payload now), Some s')"
    and m: "map_of (blogpost s') new_id = Some (create_data payload now)"
    using create_post_result [where ObjectId = ObjectId and now = now and payload = payload,
        OF assms(2-4)] by blast
  obtain out where o: "build_out (new_id, create_data payload now) = Some out"
    and p: "o_published_at out = expected_published_at payload now"
    using build_out_create_data [of new_id payload now] by blast
  have d: "dict_get (create_data payload now) ''published_at'' =
      opt VTime (expected_published_at payload now)"
    by (rule dict_get_create_data_published_at)
  have "create_post ObjectId (Some s) new_id now payload = (Inr out, Some s')"
    using c o by (simp add: serialize_post_def)
  moreover have "stored (Some s') new_id = Some (create_data payload now)"
    using m by (simp add: stored_def)
  ultimately show ?thesis
    using p d by (auto simp add: expected_published_at_def)
qed

lemma sample_fresh_c: "map_of (blogpost sample_store) id_c = None"
  by (simp add: sample_store_def post_a_def post_b_def id_a_def id_b_def id_c_def)

theorem C3_create_publish_stamp_witness:
  "\<exists>out db'.
     create_post ObjectId_hex (Some sample_store) id_c 7 payload_published = (Inr out, db') \<and>
     o_published_at out = Some 7 \<and>
     stored db' id_c = Some (create_data payload_published 7)"
proof -
  have v: "valid_payload payload_published"
    by (simp add: valid_payload_def payload_published_def payload_hi_def)
  have p: "published payload_published \<and> published_at payload_published = None"
    by (simp add: payload_published_def payload_hi_def)
  show ?thesis
    using C3_create_publish_stamp [where ObjectId = ObjectId_hex and new_id = id_c
        and s = sample_store and now = 7 and payload = payload_published,
        OF v ObjectId_hex_id_c sample_fresh_c sample_calls_ok] p
    by blast
qed

end
